theory Spec2Isabelle
  imports Main "HOL-Library.Sublist" "HOL-Library.AList"
begin

section \<open>JavaScript values, thrown values and sequencing\<close>

text \<open>
  Plain JavaScript data: what a metadata map, a credential object and the arguments and
  results of a learned capability are made of.
\<close>

datatype jsval = JUndefined | JNull | JBool bool | JNum int | JStr string
  | JObj "(string \<times> jsval) list" | JArr "jsval list"

type_synonym jsobj = "(string \<times> jsval) list"

text \<open>An \<open>Error\<close> instance with its \<open>message\<close>.\<close>

datatype Error = Error (Error_message: string)

text \<open>
  Any value can be thrown; the \<open>catch\<close> blocks of the source only ask whether it is an
  \<open>instanceof Error\<close>.
\<close>

datatype thrown = ErrorInstance Error | NonError jsval

text \<open>
  A call that may throw (or, for an \<open>async\<close> call, reject) returns \<open>Inl\<close> of the thrown
  value. \<open>js_bind\<close> is statement sequencing: the rest of the block does not run after a
  throw.
\<close>

definition js_bind :: "thrown + 'a \<Rightarrow> ('a \<Rightarrow> thrown + 'b) \<Rightarrow> thrown + 'b" where
  "js_bind m f = (case m of Inl e \<Rightarrow> Inl e | Inr x \<Rightarrow> f x)"

text \<open>\<open>!s\<close> for a value of type \<open>string | undefined\<close>: absent or the empty string.\<close>

definition falsy :: "string option \<Rightarrow> bool" where
  "falsy s = (case s of None \<Rightarrow> True | Some v \<Rightarrow> v = [])"

text \<open>\<open>s || d\<close> for a value of type \<open>string | undefined\<close> and a string default.\<close>

definition or_else :: "string option \<Rightarrow> string \<Rightarrow> string" where
  "or_else s d = (case s of None \<Rightarrow> d | Some v \<Rightarrow> if v = [] then d else v)"

datatype Date = Date int

section \<open>The Result envelope (src/src/result.ts)\<close>

record ResultError =
  message :: string
  cause :: "Error option"
  data :: "jsval list option"

text \<open>
  The constructor of the class is private; \<open>success\<close> and \<open>fail\<close> are the only ways to
  build a Result, so a Result is one of the two shapes.
\<close>

datatype 'a Result = Success 'a | Failure ResultError

definition success :: "'a \<Rightarrow> 'a Result" where
  "success v = Success v"

definition fail :: "string \<Rightarrow> Error option \<Rightarrow> jsval list \<Rightarrow> 'a Result" where
  "fail m c d =
     Failure \<lparr>message = m, cause = c, data = (if length d > 0 then Some d else None)\<rparr>"

fun isSuccess :: "'a Result \<Rightarrow> bool" where
  "isSuccess (Success v) = True"
| "isSuccess (Failure e) = False"

definition isFailure :: "'a Result \<Rightarrow> bool" where
  "isFailure r = (\<not> isSuccess r)"

fun "value" :: "'a Result \<Rightarrow> thrown + 'a" where
  "value (Success v) = Inr v"
| "value (Failure e) = Inl (ErrorInstance (Error ''Cannot get value from a failed result''))"

fun error :: "'a Result \<Rightarrow> ResultError option" where
  "error (Success v) = None"
| "error (Failure e) = Some e"

definition errorMessage :: "'a Result \<Rightarrow> string option" where
  "errorMessage r = map_option message (error r)"

definition errorCause :: "'a Result \<Rightarrow> Error option" where
  "errorCause r = (case error r of None \<Rightarrow> None | Some e \<Rightarrow> cause e)"

section \<open>The composed units and the library functions the identity calls\<close>

text \<open>
  The signer, key, DID and credential units, the key and PEM helpers and the unit schema
  come from the packages \<open>@synet/keys\<close>, \<open>@synet/did\<close>, \<open>@synet/credential\<close> and
  \<open>@synet/unit\<close>. They are parameters of the model: a unit is the bundle of the methods
  the identity calls on it, every call may throw, and a call whose result the source tests
  with \<open>!x\<close> may return nothing (\<open>None\<close>). Theorems hold for every behaviour of them.
\<close>

type_synonym capability = "jsval list \<Rightarrow> thrown + jsval"

record TeachingContract =
  unitId :: string
  capabilities :: "(string \<times> capability) list"

record UnitSchema =
  id' :: string
  version :: string

record Holder =
  id' :: string
  name :: string

record IdentitySubject =
  holder :: Holder
  issuedBy :: Holder

type_synonym SynetVerifiableCredential = jsobj

datatype Key = Key (Key_teach: "thrown + TeachingContract")

datatype Signer = Signer
  (Signer_createKey: "thrown + Key option")
  (Signer_getPublicKeyHex: "thrown + string option")
  (Signer_sign: "string \<Rightarrow> thrown + string")
  (Signer_verify: "string \<Rightarrow> string \<Rightarrow> thrown + bool")
  (Signer_teach: "thrown + TeachingContract")

datatype DID = DID (DID_generateKey: "thrown + string option")

text \<open>
  \<open>learn\<close> changes the credential unit in place; the model returns the unit as it is
  after learning.
\<close>

codatatype Credential = Credential
  (Credential_learn: "TeachingContract list \<Rightarrow> thrown + Credential")
  (Credential_issueCredential:
     "IdentitySubject \<Rightarrow> string \<Rightarrow> string \<Rightarrow> thrown + SynetVerifiableCredential Result")
  (Credential_teach: "thrown + TeachingContract")

record KeyPair =
  publicKey :: string
  privateKey :: string

record SignerMetadata =
  name :: string

record SignerConfig =
  privateKeyPEM :: string
  publicKeyPEM :: string
  keyType :: string
  secure :: "bool option"
  metadata :: SignerMetadata

record DIDMetadata =
  "alias" :: string

record DIDConfig =
  publicKeyHex :: string
  keyType :: string
  metadata :: DIDMetadata

record env =
  generateKeyPair :: "string \<Rightarrow> string \<Rightarrow> thrown + KeyPair option"
  hexToPem :: "string \<Rightarrow> string \<Rightarrow> thrown + string option"
  hexPrivateKeyToPem :: "string \<Rightarrow> thrown + string option"
  Signer_create :: "SignerConfig \<Rightarrow> thrown + Signer option"
  DID_create :: "DIDConfig \<Rightarrow> thrown + DID option"
  Credential_create :: "thrown + Credential"
  createUnitSchema :: "UnitSchema \<Rightarrow> thrown + UnitSchema"
  new_Date :: Date

section \<open>The data model (src/src/identity-types.ts)\<close>

record IdentityConfig =
  "alias" :: "string option"
  did :: "string option"
  publicKeyHex :: "string option"
  privateKeyHex :: "string option"
  kid :: "string option"
  provider :: "string option"
  credential :: "SynetVerifiableCredential option"
  metadata :: "jsobj option"
  createdAt :: "Date option"

record IdentityProps =
  dna :: UnitSchema
  "alias" :: string
  did :: string
  kid :: string
  publicKeyHex :: string
  privateKeyHex :: "string option"
  provider :: string
  credential :: SynetVerifiableCredential
  metadata :: jsobj
  createdAt :: Date
  didUnit :: DID
  signerUnit :: Signer
  keyUnit :: Key
  credentialUnit :: Credential

record IIdentity =
  "alias" :: string
  did :: string
  kid :: string
  publicKeyHex :: string
  privateKeyHex :: "string option"
  provider :: string
  credential :: SynetVerifiableCredential
  metadata :: "jsobj option"
  createdAt :: Date

record IdentityPresent =
  did :: string
  publicKeyHex :: string
  credential :: SynetVerifiableCredential

definition VERSION :: string where
  "VERSION = ''1.0.1''"

section \<open>The Unit base class: the capability registry\<close>

text \<open>
  An Identity is its props and the registry \<open>_capabilities\<close> of the Unit base class, a
  Map from capability name to callable, kept in insertion order.
\<close>

record Identity =
  props :: IdentityProps
  capabilities' :: "(string \<times> capability) list"

text \<open>
  Modelled from the spec: the Unit base class of \<open>@synet/unit\<close> (constructor, \<open>can\<close>,
  \<open>execute\<close>, \<open>learn\<close>) is not under src/. The registry is "a per-instance mapping from
  namespaced capability name to callable, populated by learning from another component's
  teaching contract"; a name is "component-name + operation name"; a registered entry is
  invoked "with the call's positional arguments" and its result returned. The
  constructor keeps the props object it is given (the Identity "holds a canonical record
  plus references to the component handles"), and a new unit has learned nothing.
\<close>

definition new_Identity :: "IdentityProps \<Rightarrow> Identity" where
  "new_Identity p = \<lparr>props = p, capabilities' = []\<rparr>"

definition can :: "Identity \<Rightarrow> string \<Rightarrow> bool" where
  "can i c = (map_of (capabilities' i) c \<noteq> None)"

definition execute :: "Identity \<Rightarrow> string \<Rightarrow> jsval list \<Rightarrow> thrown + jsval" where
  "execute i c args =
     (case map_of (capabilities' i) c of
        None \<Rightarrow> Inl (ErrorInstance (Error (''Unknown command: '' @ c)))
      | Some impl \<Rightarrow> impl args)"

fun learn_contract ::
  "string \<Rightarrow> (string \<times> capability) list \<Rightarrow> (string \<times> capability) list
    \<Rightarrow> (string \<times> capability) list" where
  "learn_contract u [] reg = reg"
| "learn_contract u ((c, impl) # cs) reg =
     learn_contract u cs (AList.update (u @ ''.'' @ c) impl reg)"

fun learn_all ::
  "TeachingContract list \<Rightarrow> (string \<times> capability) list \<Rightarrow> (string \<times> capability) list" where
  "learn_all [] reg = reg"
| "learn_all (t # ts) reg = learn_all ts (learn_contract (unitId t) (capabilities t) reg)"

definition learn :: "Identity \<Rightarrow> TeachingContract list \<Rightarrow> Identity" where
  "learn i ts = i\<lparr>capabilities' := learn_all ts (capabilities' i)\<rparr>"

section \<open>Identity.create\<close>

text \<open>
  The object literal \<open>props\<close> of \<open>create\<close>, from the config, the schema, the units built
  before it and the clock (\<open>new Date()\<close>, read only when the config has no creation time).
\<close>

definition create_props ::
  "env \<Rightarrow> IdentityConfig \<Rightarrow> UnitSchema \<Rightarrow> DID \<Rightarrow> Signer \<Rightarrow> Key \<Rightarrow> Credential
    \<Rightarrow> IdentityProps" where
  "create_props E config schema did_unit signer key credential_unit =
     \<lparr>dna = schema,
      IdentityProps.alias = or_else (IdentityConfig.alias config) ''unknown'',
      IdentityProps.did = or_else (IdentityConfig.did config) ''did:key:unknown'',
      IdentityProps.kid =
        or_else (IdentityConfig.kid config) (the (IdentityConfig.publicKeyHex config)),
      IdentityProps.publicKeyHex = the (IdentityConfig.publicKeyHex config),
      IdentityProps.privateKeyHex = IdentityConfig.privateKeyHex config,
      IdentityProps.provider = or_else (IdentityConfig.provider config) ''did:key'',
      IdentityProps.credential =
        (case IdentityConfig.credential config of None \<Rightarrow> [] | Some c \<Rightarrow> c),
      IdentityProps.metadata =
        (case IdentityConfig.metadata config of None \<Rightarrow> [] | Some m \<Rightarrow> m),
      IdentityProps.createdAt =
        (case IdentityConfig.createdAt config of None \<Rightarrow> new_Date E | Some d \<Rightarrow> d),
      didUnit = did_unit, signerUnit = signer, keyUnit = key,
      credentialUnit = credential_unit\<rparr>"

text \<open>
  The body of the \<open>try\<close> block of \<open>create\<close>. \<open>Inl\<close> is a throw inside the block, \<open>Inr\<close> a
  \<open>return\<close>. The required fields are read with \<open>the\<close> only after the validation gate has
  found them present.
\<close>

definition create_try :: "env \<Rightarrow> IdentityConfig \<Rightarrow> thrown + Identity Result" where
  "create_try E config =
    (if falsy (IdentityConfig.privateKeyHex config) \<or> falsy (IdentityConfig.publicKeyHex config)
        \<or> falsy (IdentityConfig.did config) \<or> falsy (IdentityConfig.alias config)
     then Inr (fail ''Required fields: alias, publicKeyHex, privateKeyHex, did'' None [])
     else
      js_bind (hexPrivateKeyToPem E (the (IdentityConfig.privateKeyHex config))) (\<lambda>privateKeyPEM.
      js_bind (hexToPem E (the (IdentityConfig.publicKeyHex config)) ''ed25519'') (\<lambda>publicKeyPEM.
      if falsy privateKeyPEM \<or> falsy publicKeyPEM
      then Inl (ErrorInstance (Error ''Failed to convert keys to PEM format''))
      else
      js_bind (Signer_create E
        \<lparr>privateKeyPEM = the privateKeyPEM, publicKeyPEM = the publicKeyPEM,
         SignerConfig.keyType = ''ed25519'', secure = None,
         SignerConfig.metadata =
           \<lparr>SignerMetadata.name = or_else (IdentityConfig.alias config) ''unknown'' @ ''-signer''\<rparr>\<rparr>)
        (\<lambda>signer_opt.
      case signer_opt of
        None \<Rightarrow> Inr (fail ''Failed to create signer from key material'' None [])
      | Some signer \<Rightarrow>
      js_bind (Signer_createKey signer) (\<lambda>key_opt.
      case key_opt of
        None \<Rightarrow> Inr (fail ''Failed to create key from signer'' None [])
      | Some key \<Rightarrow>
      js_bind (DID_create E
        \<lparr>DIDConfig.publicKeyHex = the (IdentityConfig.publicKeyHex config),
         DIDConfig.keyType = ''Ed25519'',
         DIDConfig.metadata =
           \<lparr>DIDMetadata.alias = or_else (IdentityConfig.alias config) ''unknown''\<rparr>\<rparr>)
        (\<lambda>did_opt.
      case did_opt of
        None \<Rightarrow> Inr (fail ''Failed to reconstruct DID'' None [])
      | Some did_unit \<Rightarrow>
      js_bind (Credential_create E) (\<lambda>credential_unit.
      js_bind (Key_teach key) (\<lambda>contract.
      js_bind (Credential_learn credential_unit [contract]) (\<lambda>credential_unit.
      js_bind (createUnitSchema E \<lparr>UnitSchema.id' = ''identity'', version = ''1.0.0''\<rparr>) (\<lambda>schema.
      Inr (success (new_Identity
        (create_props E config schema did_unit signer key credential_unit)))))))))))))"

text \<open>
  The \<open>catch\<close> block shared by \<open>create\<close> and \<open>generate\<close>: the message of an Error
  instance or a fixed text, and the Error instance as cause. (\<open>generate\<close> also prints the
  error to the console, which the model leaves out.)
\<close>

fun catch_error :: "thrown \<Rightarrow> 'a Result" where
  "catch_error (ErrorInstance e) = fail (Error_message e) (Some e) []"
| "catch_error (NonError v) = fail ''Unknown error occurred'' None []"

text \<open>
  The result type keeps a thrown value (\<open>Inl\<close>) apart from a returned Result (\<open>Inr\<close>), so
  that "does not throw" is a statement about the model and not a property of its type.
\<close>

definition create :: "env \<Rightarrow> IdentityConfig \<Rightarrow> thrown + Identity Result" where
  "create E config =
     (case create_try E config of Inl e \<Rightarrow> Inr (catch_error e) | Inr r \<Rightarrow> Inr r)"

section \<open>Identity.generate\<close>

definition generate_subject :: "string \<Rightarrow> string \<Rightarrow> IdentitySubject" where
  "generate_subject didString a =
     \<lparr>holder = \<lparr>Holder.id' = didString, Holder.name = a\<rparr>,
      issuedBy = \<lparr>Holder.id' = didString, Holder.name = a\<rparr>\<rparr>"

definition generate_props ::
  "env \<Rightarrow> string \<Rightarrow> UnitSchema \<Rightarrow> string \<Rightarrow> string \<Rightarrow> string
    \<Rightarrow> SynetVerifiableCredential \<Rightarrow> DID \<Rightarrow> Signer \<Rightarrow> Key \<Rightarrow> Credential \<Rightarrow> IdentityProps" where
  "generate_props E a schema didString public_hex private_hex vc did_unit signer key
      credential_unit =
     \<lparr>dna = schema,
      IdentityProps.alias = a,
      IdentityProps.did = didString,
      IdentityProps.kid = public_hex,
      IdentityProps.publicKeyHex = public_hex,
      IdentityProps.privateKeyHex = Some private_hex,
      IdentityProps.provider = ''did:key'',
      IdentityProps.credential = vc,
      IdentityProps.metadata = [],
      IdentityProps.createdAt = new_Date E,
      didUnit = did_unit, signerUnit = signer, keyUnit = key,
      credentialUnit = credential_unit\<rparr>"

text \<open>
  The body of the \<open>try\<close> block of \<open>generate\<close>; \<open>await\<close> on a rejected promise is a throw.
  A failed credential result without a message prints as \<open>undefined\<close> in the template
  string.
\<close>

definition generate_try :: "env \<Rightarrow> string \<Rightarrow> thrown + Identity Result" where
  "generate_try E a =
      js_bind (generateKeyPair E ''ed25519'' ''hex'') (\<lambda>keyPair_opt.
      case keyPair_opt of
        None \<Rightarrow> Inl (ErrorInstance (Error ''Failed to generate key pair''))
      | Some keyPair \<Rightarrow>
      js_bind (hexToPem E (publicKey keyPair) ''ed25519'') (\<lambda>publicKeyPEM.
      js_bind (hexPrivateKeyToPem E (privateKey keyPair)) (\<lambda>privateKeyPEM.
      if falsy publicKeyPEM \<or> falsy privateKeyPEM
      then Inl (ErrorInstance (Error ''Failed to convert keys to PEM format''))
      else
      js_bind (Signer_create E
        \<lparr>privateKeyPEM = the privateKeyPEM, publicKeyPEM = the publicKeyPEM,
         SignerConfig.keyType = ''ed25519'', secure = Some True,
         SignerConfig.metadata = \<lparr>SignerMetadata.name = a @ ''-signer''\<rparr>\<rparr>)
        (\<lambda>signer_opt.
      case signer_opt of
        None \<Rightarrow> Inl (ErrorInstance (Error ''Failed to create signer from key pair''))
      | Some signer \<Rightarrow>
      js_bind (Signer_createKey signer) (\<lambda>key_opt.
      case key_opt of
        None \<Rightarrow> Inl (ErrorInstance (Error ''Failed to create key from signer''))
      | Some key \<Rightarrow>
      js_bind (Signer_getPublicKeyHex signer) (\<lambda>public_hex.
      if falsy public_hex
      then Inl (ErrorInstance (Error ''Failed to get public key hex''))
      else
      js_bind (DID_create E
        \<lparr>DIDConfig.publicKeyHex = the public_hex, DIDConfig.keyType = ''Ed25519'',
         DIDConfig.metadata = \<lparr>DIDMetadata.alias = a\<rparr>\<rparr>)
        (\<lambda>did_opt.
      case did_opt of
        None \<Rightarrow> Inl (ErrorInstance (Error ''Failed to create DID from public key''))
      | Some did_unit \<Rightarrow>
      js_bind (DID_generateKey did_unit) (\<lambda>didString.
      if falsy didString
      then Inl (ErrorInstance (Error ''Failed to generate DID string''))
      else
      js_bind (Credential_create E) (\<lambda>credential_unit.
      js_bind (Key_teach key) (\<lambda>contract.
      js_bind (Credential_learn credential_unit [contract]) (\<lambda>credential_unit.
      js_bind (Credential_issueCredential credential_unit
                 (generate_subject (the didString) a) ''IdentityCredential'' (the didString))
        (\<lambda>credentialResult.
      if \<not> isSuccess credentialResult
      then Inr (fail (''Failed to issue identity credential: ''
                        @ (case errorMessage credentialResult of
                             None \<Rightarrow> ''undefined'' | Some m \<Rightarrow> m)) None [])
      else
      js_bind (value credentialResult) (\<lambda>vc.
      js_bind (createUnitSchema E \<lparr>UnitSchema.id' = ''identity'', version = VERSION\<rparr>) (\<lambda>schema.
      js_bind (Signer_teach signer) (\<lambda>signer_contract.
      js_bind (Key_teach key) (\<lambda>key_contract.
      js_bind (Credential_teach credential_unit) (\<lambda>credential_contract.
      Inr (success (learn
        (new_Identity
          (generate_props E a schema (the didString) (the public_hex) (privateKey keyPair) vc
             did_unit signer key credential_unit))
        [signer_contract, key_contract, credential_contract])))))))))))))))))))"

definition generate :: "env \<Rightarrow> string \<Rightarrow> thrown + Identity Result" where
  "generate E a =
     (case generate_try E a of Inl e \<Rightarrow> Inr (catch_error e) | Inr r \<Rightarrow> Inr r)"

section \<open>Delegated operations\<close>

text \<open>
  A learned capability returns whatever it returns (\<open>unknown\<close> in the source), so the
  result of \<open>sign\<close> and \<open>verify\<close> is a JavaScript value; the bound signer's string or boolean
  is the corresponding value.
\<close>

definition sign :: "Identity \<Rightarrow> string \<Rightarrow> thrown + jsval" where
  "sign i d =
     (if can i ''signer.sign'' then execute i ''signer.sign'' [JStr d]
      else if \<not> falsy (IdentityProps.privateKeyHex (props i))
      then js_bind (Signer_sign (signerUnit (props i)) d) (\<lambda>s. Inr (JStr s))
      else Inl (ErrorInstance (Error
        (''['' @ UnitSchema.id' (dna (props i)) @ ''] Cannot sign - missing ''
          @ [CHR 0x27] @ ''signer.sign'' @ [CHR 0x27]
          @ '' capability. Learn from: Signer.create().teach()''))))"

definition verify :: "Identity \<Rightarrow> string \<Rightarrow> string \<Rightarrow> thrown + jsval" where
  "verify i d signature =
     (if can i ''signer.verify'' then execute i ''signer.verify'' [JStr d, JStr signature]
      else js_bind (Signer_verify (signerUnit (props i)) d signature) (\<lambda>b. Inr (JBool b)))"

section \<open>Projections\<close>

definition toJSON :: "Identity \<Rightarrow> IIdentity" where
  "toJSON i =
     \<lparr>IIdentity.alias = IdentityProps.alias (props i),
      IIdentity.did = IdentityProps.did (props i),
      IIdentity.kid = IdentityProps.kid (props i),
      IIdentity.publicKeyHex = IdentityProps.publicKeyHex (props i),
      IIdentity.privateKeyHex = IdentityProps.privateKeyHex (props i),
      IIdentity.provider = IdentityProps.provider (props i),
      IIdentity.credential = IdentityProps.credential (props i),
      IIdentity.metadata = Some (IdentityProps.metadata (props i)),
      IIdentity.createdAt = IdentityProps.createdAt (props i)\<rparr>"

definition toDomain :: "Identity \<Rightarrow> IIdentity" where
  "toDomain i =
     \<lparr>IIdentity.alias = IdentityProps.alias (props i),
      IIdentity.did = IdentityProps.did (props i),
      IIdentity.kid = IdentityProps.kid (props i),
      IIdentity.publicKeyHex = IdentityProps.publicKeyHex (props i),
      IIdentity.privateKeyHex = IdentityProps.privateKeyHex (props i),
      IIdentity.provider = IdentityProps.provider (props i),
      IIdentity.credential = IdentityProps.credential (props i),
      IIdentity.metadata = Some (IdentityProps.metadata (props i)),
      IIdentity.createdAt = IdentityProps.createdAt (props i)\<rparr>"

definition present :: "Identity \<Rightarrow> IdentityPresent" where
  "present i =
     \<lparr>IdentityPresent.did = IdentityProps.did (props i),
      IdentityPresent.publicKeyHex = IdentityProps.publicKeyHex (props i),
      IdentityPresent.credential = IdentityProps.credential (props i)\<rparr>"

text \<open>
  \<open>public()\<close> is a rest destructuring of \<open>this.props\<close>, so what it returns depends on
  which own properties the props object has. An object seen this way is the list of its
  own properties, in creation order; a property value is one of the field types of the
  records above.
\<close>

datatype prop_value = PUndefined | PString string | PObject jsobj | PDate Date
  | PSchema UnitSchema | PDID DID | PSigner Signer | PKey Key | PCredentialUnit Credential

type_synonym object = "(string \<times> prop_value) list"

definition optional_string :: "string option \<Rightarrow> prop_value" where
  "optional_string s = (case s of None \<Rightarrow> PUndefined | Some v \<Rightarrow> PString v)"

text \<open>The props object, as the literals in \<open>create\<close> and \<open>generate\<close> build it.\<close>

definition IdentityProps_entries :: "IdentityProps \<Rightarrow> object" where
  "IdentityProps_entries p =
     [(''dna'', PSchema (dna p)),
      (''alias'', PString (IdentityProps.alias p)),
      (''did'', PString (IdentityProps.did p)),
      (''kid'', PString (IdentityProps.kid p)),
      (''publicKeyHex'', PString (IdentityProps.publicKeyHex p)),
      (''privateKeyHex'', optional_string (IdentityProps.privateKeyHex p)),
      (''provider'', PString (IdentityProps.provider p)),
      (''credential'', PObject (IdentityProps.credential p)),
      (''metadata'', PObject (IdentityProps.metadata p)),
      (''createdAt'', PDate (IdentityProps.createdAt p)),
      (''didUnit'', PDID (didUnit p)),
      (''signerUnit'', PSigner (signerUnit p)),
      (''keyUnit'', PKey (keyUnit p)),
      (''credentialUnit'', PCredentialUnit (credentialUnit p))]"

text \<open>The object literal of \<open>toDomain\<close> and \<open>toJSON\<close>: nine keys, always present.\<close>

definition IIdentity_entries :: "IIdentity \<Rightarrow> object" where
  "IIdentity_entries r =
     [(''alias'', PString (IIdentity.alias r)),
      (''did'', PString (IIdentity.did r)),
      (''kid'', PString (IIdentity.kid r)),
      (''publicKeyHex'', PString (IIdentity.publicKeyHex r)),
      (''privateKeyHex'', optional_string (IIdentity.privateKeyHex r)),
      (''provider'', PString (IIdentity.provider r)),
      (''credential'', PObject (IIdentity.credential r)),
      (''metadata'', (case IIdentity.metadata r of None \<Rightarrow> PUndefined | Some m \<Rightarrow> PObject m)),
      (''createdAt'', PDate (IIdentity.createdAt r))]"

definition IdentityPresent_entries :: "IdentityPresent \<Rightarrow> object" where
  "IdentityPresent_entries r =
     [(''did'', PString (IdentityPresent.did r)),
      (''publicKeyHex'', PString (IdentityPresent.publicKeyHex r)),
      (''credential'', PObject (IdentityPresent.credential r))]"

text \<open>\<open>const { k, ...rest } = obj\<close>: the own properties of \<open>obj\<close> other than \<open>k\<close>.\<close>

definition rest_without :: "string \<Rightarrow> object \<Rightarrow> object" where
  "rest_without k obj = filter (\<lambda>kv. fst kv \<noteq> k) obj"

definition "public" :: "Identity \<Rightarrow> object" where
  "public i = rest_without ''privateKeyHex'' (IdentityProps_entries (props i))"


section \<open>A reference environment\<close>

text \<open>
  One concrete behaviour of the libraries, in which every call succeeds: the closed
  instances below are evaluated in it. The key pair is fixed, a PEM is its hex behind a
  tag, a signature is the data behind a tag, the DID is the public key behind the
  \<open>did:key:\<close> prefix, and a credential unit issues credentials once it has learned from a
  key.
\<close>

definition stub_key_contract :: TeachingContract where
  "stub_key_contract =
     \<lparr>unitId = ''key'', capabilities = [(''getPublicKey'', \<lambda>args. Inr (JStr ''ab''))]\<rparr>"

definition stub_signer_contract :: TeachingContract where
  "stub_signer_contract =
     \<lparr>unitId = ''signer'',
      capabilities = [(''sign'', \<lambda>args. Inr (JStr ''taught signature'')),
                      (''verify'', \<lambda>args. Inr (JBool True))]\<rparr>"

definition stub_credential_contract :: TeachingContract where
  "stub_credential_contract = \<lparr>unitId = ''credential'', capabilities = []\<rparr>"

definition stub_key :: Key where
  "stub_key = Key (Inr stub_key_contract)"

definition stub_signer :: "string \<Rightarrow> Signer" where
  "stub_signer pub =
     Signer (Inr (Some stub_key)) (Inr (Some pub))
       (\<lambda>d. Inr (''sig:'' @ d)) (\<lambda>d s. Inr (s = ''sig:'' @ d))
       (Inr stub_signer_contract)"

definition stub_did :: "string \<Rightarrow> DID" where
  "stub_did pub = DID (Inr (Some (''did:key:z'' @ pub)))"

definition stub_vc :: "IdentitySubject \<Rightarrow> string \<Rightarrow> string \<Rightarrow> SynetVerifiableCredential" where
  "stub_vc subject type issuer =
     [(''type'', JStr type), (''issuer'', JStr issuer),
      (''holder'', JStr (Holder.id' (holder subject)))]"

definition taught_credential :: Credential where
  "taught_credential =
     Credential (\<lambda>ts. Inl (ErrorInstance (Error ''already taught'')))
       (\<lambda>subject type issuer. Inr (success (stub_vc subject type issuer)))
       (Inr stub_credential_contract)"

definition fresh_credential :: Credential where
  "fresh_credential =
     Credential (\<lambda>ts. Inr taught_credential)
       (\<lambda>subject type issuer. Inr (fail ''no signing capability'' None []))
       (Inr stub_credential_contract)"

definition stub_env :: env where
  "stub_env =
     \<lparr>generateKeyPair = (\<lambda>type format. Inr (Some \<lparr>publicKey = ''ab'', privateKey = ''cd''\<rparr>)),
      hexToPem = (\<lambda>hex type. Inr (Some (''PUBLIC '' @ hex))),
      hexPrivateKeyToPem = (\<lambda>hex. Inr (Some (''PRIVATE '' @ hex))),
      Signer_create = (\<lambda>c. Inr (Some (stub_signer (drop 7 (publicKeyPEM c))))),
      DID_create = (\<lambda>c. Inr (Some (stub_did (DIDConfig.publicKeyHex c)))),
      Credential_create = Inr fresh_credential,
      createUnitSchema = (\<lambda>s. Inr s),
      new_Date = Date 0\<rparr>"

text \<open>The same libraries, but the public-key conversion throws.\<close>

definition throwing_env :: env where
  "throwing_env = stub_env\<lparr>hexToPem := (\<lambda>hex type. Inl (ErrorInstance (Error ''Invalid hex'')))\<rparr>"

definition throwing_string_env :: env where
  "throwing_string_env = stub_env\<lparr>hexToPem := (\<lambda>hex type. Inl (NonError (JStr ''bad key'')))\<rparr>"

definition alice_config :: IdentityConfig where
  "alice_config =
     \<lparr>IdentityConfig.alias = Some ''alice'', IdentityConfig.did = Some ''did:key:zab'',
      IdentityConfig.publicKeyHex = Some ''ab'', IdentityConfig.privateKeyHex = Some ''cd'',
      IdentityConfig.kid = None, IdentityConfig.provider = None,
      IdentityConfig.credential = None, IdentityConfig.metadata = None,
      IdentityConfig.createdAt = None\<rparr>"

text \<open>The config of the repository's unit test: only an alias and a provider.\<close>

definition keys_missing_config :: IdentityConfig where
  "keys_missing_config =
     \<lparr>IdentityConfig.alias = Some ''config-user'', IdentityConfig.did = None,
      IdentityConfig.publicKeyHex = None, IdentityConfig.privateKeyHex = None,
      IdentityConfig.kid = None, IdentityConfig.provider = Some ''did:key'',
      IdentityConfig.credential = None, IdentityConfig.metadata = None,
      IdentityConfig.createdAt = None\<rparr>"

text \<open>What \<open>create\<close> returns for \<open>alice_config\<close>, and \<open>generate\<close> for an alias.\<close>

definition created_alice :: Identity where
  "created_alice =
     new_Identity (create_props stub_env alice_config
       \<lparr>UnitSchema.id' = ''identity'', version = ''1.0.0''\<rparr>
       (stub_did ''ab'') (stub_signer ''ab'') stub_key taught_credential)"

definition generated :: "string \<Rightarrow> Identity" where
  "generated a =
     learn
       (new_Identity (generate_props stub_env a
          \<lparr>UnitSchema.id' = ''identity'', version = ''1.0.1''\<rparr> ''did:key:zab'' ''ab'' ''cd''
          (stub_vc (generate_subject ''did:key:zab'' a) ''IdentityCredential'' ''did:key:zab'')
          (stub_did ''ab'') (stub_signer ''ab'') stub_key taught_credential))
       [stub_signer_contract, stub_key_contract, stub_credential_contract]"

text \<open>
  The created identity after an external unit has taught it a replacement \<open>sign\<close> under
  the signer's namespace.
\<close>

definition overridden_alice :: Identity where
  "overridden_alice =
     learn created_alice
       [\<lparr>unitId = ''signer'',
         capabilities = [(''sign'', \<lambda>args. Inr (JStr ''replacement''))]\<rparr>]"

text \<open>
  An identity whose props hold no private key (the field is optional in
  \<open>IdentityProps\<close>) and which has learned nothing.
\<close>

definition keyless_alice :: Identity where
  "keyless_alice =
     new_Identity ((props created_alice)\<lparr>IdentityProps.privateKeyHex := None\<rparr>)"

text \<open>The value of a result, when the call returned a success.\<close>

definition produced :: "thrown + 'a Result \<Rightarrow> 'a option" where
  "produced r = (case r of Inl e \<Rightarrow> None | Inr (Success v) \<Rightarrow> Some v | Inr (Failure e) \<Rightarrow> None)"

section \<open>Auxiliary facts\<close>

lemma stub_env_simps:
  "generateKeyPair stub_env t f = Inr (Some \<lparr>publicKey = ''ab'', privateKey = ''cd''\<rparr>)"
  "hexToPem stub_env h t = Inr (Some (''PUBLIC '' @ h))"
  "hexPrivateKeyToPem stub_env h = Inr (Some (''PRIVATE '' @ h))"
  "Signer_create stub_env c = Inr (Some (stub_signer (drop 7 (publicKeyPEM c))))"
  "DID_create stub_env dc = Inr (Some (stub_did (DIDConfig.publicKeyHex dc)))"
  "Credential_create stub_env = Inr fresh_credential"
  "createUnitSchema stub_env s = Inr s"
  by (simp_all add: stub_env_def)

lemma stub_unit_simps:
  "Signer_createKey (stub_signer p) = Inr (Some stub_key)"
  "Signer_getPublicKeyHex (stub_signer p) = Inr (Some p)"
  "Signer_sign (stub_signer p) d = Inr (''sig:'' @ d)"
  "Signer_verify (stub_signer p) d sg = Inr (sg = ''sig:'' @ d)"
  "Signer_teach (stub_signer p) = Inr stub_signer_contract"
  "Key_teach stub_key = Inr stub_key_contract"
  "DID_generateKey (stub_did p) = Inr (Some (''did:key:z'' @ p))"
  "Credential_learn fresh_credential ts = Inr taught_credential"
  "Credential_issueCredential taught_credential subject type issuer =
     Inr (Success (stub_vc subject type issuer))"
  "Credential_teach taught_credential = Inr stub_credential_contract"
  by (simp_all add: stub_signer_def stub_key_def stub_did_def fresh_credential_def
        taught_credential_def success_def)

lemma js_bind_InrD: "js_bind m f = Inr r \<Longrightarrow> \<exists>x. m = Inr x \<and> f x = Inr r"
  by (cases m) (simp_all add: js_bind_def)

lemma js_bind_Inr [simp]: "js_bind (Inr x) f = f x"
  by (simp add: js_bind_def)

lemma js_bind_Inl [simp]: "js_bind (Inl e) f = Inl e"
  by (simp add: js_bind_def)

lemma fail_neq_Success [simp]: "fail m c d \<noteq> Success v"
  by (simp add: fail_def)

lemma catch_error_neq_Success [simp]: "catch_error e \<noteq> Success v"
  by (cases e) simp_all

lemma value_InrD: "value r = Inr v \<Longrightarrow> r = Success v"
  by (cases r) simp_all

lemma props_learn [simp]: "props (learn i ts) = props i"
  by (simp add: learn_def)

lemma props_new_Identity [simp]: "props (new_Identity p) = p"
  by (simp add: new_Identity_def)


lemma generate_Success_try:
  "generate E a = Inr (Success i) \<Longrightarrow> generate_try E a = Inr (Success i)"
  by (cases "generate_try E a") (simp_all add: generate_def)



lemma generate_try_SuccessD:
  assumes "generate_try E a = Inr (Success i)"
  shows "IdentityProps.alias (props i) = a
       \<and> IdentityProps.did (props i) \<noteq> []
       \<and> IdentityProps.publicKeyHex (props i) \<noteq> []
       \<and> IdentityProps.privateKeyHex (props i) \<noteq> None
       \<and> Credential_issueCredential (credentialUnit (props i))
            (generate_subject (IdentityProps.did (props i)) a) ''IdentityCredential''
            (IdentityProps.did (props i))
           = Inr (Success (IdentityProps.credential (props i)))"
  using assms unfolding generate_try_def
  by (auto simp: success_def falsy_def learn_def new_Identity_def generate_props_def
           split: option.splits if_splits dest!: js_bind_InrD value_InrD)

text \<open>
  What a successful \<open>generate\<close> says of the libraries: the DID unit was built from the
  stored public-key hex and the alias, the stored DID string is the one that unit
  derived, the public-key hex is the signer's, the private key converts to a PEM, and a
  credential unit can be created.
\<close>

lemma generate_try_Success_derivation:
  assumes "generate_try E a = Inr (Success i)"
  shows "DID_create E
           \<lparr>DIDConfig.publicKeyHex = IdentityProps.publicKeyHex (props i),
            DIDConfig.keyType = ''Ed25519'',
            DIDConfig.metadata = \<lparr>DIDMetadata.alias = a\<rparr>\<rparr> = Inr (Some (didUnit (props i)))
       \<and> DID_generateKey (didUnit (props i)) = Inr (Some (IdentityProps.did (props i)))
       \<and> Signer_getPublicKeyHex (signerUnit (props i))
           = Inr (Some (IdentityProps.publicKeyHex (props i)))"
  using assms unfolding generate_try_def
  by (auto simp: success_def falsy_def learn_def new_Identity_def generate_props_def
           split: option.splits if_splits dest!: js_bind_InrD value_InrD)


lemma result_fail_simps:
  "isFailure (fail m c d)" "errorMessage (fail m c d) = Some m" "errorCause (fail m c d) = c"
  by (simp_all add: fail_def isFailure_def errorMessage_def errorCause_def)

lemma create_stub_alice: "create stub_env alice_config = Inr (Success created_alice)"
  by (simp add: create_def create_try_def falsy_def or_else_def success_def
        alice_config_def stub_env_simps stub_unit_simps created_alice_def)

lemma generate_stub: "generate stub_env a = Inr (Success (generated a))"
  by (simp add: generate_def generate_try_def falsy_def success_def VERSION_def
        stub_env_simps stub_unit_simps generated_def)

section \<open>Properties of the projections\<close>

text \<open>
  C10. For every Identity, \<open>toJSON()\<close> and \<open>toDomain()\<close> return equal records: the same
  nine fields (alias, did, kid, publicKeyHex, privateKeyHex, provider, credential,
  metadata, createdAt) with identical values.
\<close>

theorem toJSON_eq_toDomain:
  "toJSON i = toDomain i
   \<and> IIdentity_entries (toJSON i) = IIdentity_entries (toDomain i)
   \<and> map fst (IIdentity_entries (toJSON i)) =
       [''alias'', ''did'', ''kid'', ''publicKeyHex'', ''privateKeyHex'', ''provider'',
        ''credential'', ''metadata'', ''createdAt'']"
  by (simp add: toJSON_def toDomain_def IIdentity_entries_def)

lemma rest_without_removes: "k \<notin> fst ` set (rest_without k obj)"
  by (auto simp: rest_without_def)

text \<open>
  C7. For every Identity, however constructed, the value returned by \<open>public()\<close> and the
  value returned by \<open>present()\<close> contain no private-key hex field.
\<close>

theorem public_and_present_without_privateKeyHex:
  "''privateKeyHex'' \<notin> fst ` set (public i)
   \<and> ''privateKeyHex'' \<notin> fst ` set (IdentityPresent_entries (present i))"
  by (simp add: public_def rest_without_removes IdentityPresent_entries_def)

text \<open>
  C1 (fails on the code). The claim: for every successfully constructed Identity,
  \<open>public()\<close> is the domain record of \<open>toDomain()\<close> with exactly the private-key hex
  removed, and has no other fields. The code destructures \<open>this.props\<close>, which also holds
  the schema and the four composed units: for the identity that \<open>create\<close> returns for
  \<open>alice_config\<close>, \<open>public()\<close> has thirteen fields, the eight of the domain record and
  \<open>dna\<close>, \<open>didUnit\<close>, \<open>signerUnit\<close>, \<open>keyUnit\<close>, \<open>credentialUnit\<close>.
\<close>

theorem public_exposes_units:
  "create stub_env alice_config = Inr (Success created_alice)
   \<and> map fst (public created_alice) =
       [''dna'', ''alias'', ''did'', ''kid'', ''publicKeyHex'', ''provider'', ''credential'',
        ''metadata'', ''createdAt'', ''didUnit'', ''signerUnit'', ''keyUnit'', ''credentialUnit'']
   \<and> map fst (rest_without ''privateKeyHex'' (IIdentity_entries (toDomain created_alice))) =
       [''alias'', ''did'', ''kid'', ''publicKeyHex'', ''provider'', ''credential'',
        ''metadata'', ''createdAt'']
   \<and> map_of (public created_alice) ''signerUnit'' = Some (PSigner (stub_signer ''ab''))
   \<and> set (public created_alice)
       \<noteq> set (rest_without ''privateKeyHex'' (IIdentity_entries (toDomain created_alice)))"
proof -
  have keys: "map fst (public created_alice) =
       [''dna'', ''alias'', ''did'', ''kid'', ''publicKeyHex'', ''provider'', ''credential'',
        ''metadata'', ''createdAt'', ''didUnit'', ''signerUnit'', ''keyUnit'', ''credentialUnit'']"
    by (simp add: public_def rest_without_def IdentityProps_entries_def)
  have dkeys: "map fst (rest_without ''privateKeyHex'' (IIdentity_entries (toDomain created_alice))) =
       [''alias'', ''did'', ''kid'', ''publicKeyHex'', ''provider'', ''credential'',
        ''metadata'', ''createdAt'']"
    by (simp add: rest_without_def IIdentity_entries_def)
  have signer: "map_of (public created_alice) ''signerUnit'' = Some (PSigner (stub_signer ''ab''))"
    by (simp add: public_def rest_without_def IdentityProps_entries_def created_alice_def
          create_props_def)
  have inside: "''signerUnit'' \<in> set (map fst (public created_alice))"
    unfolding keys by simp
  have outside: "''signerUnit'' \<notin> set (map fst
      (rest_without ''privateKeyHex'' (IIdentity_entries (toDomain created_alice))))"
    unfolding dkeys by simp
  have "set (public created_alice)
       \<noteq> set (rest_without ''privateKeyHex'' (IIdentity_entries (toDomain created_alice)))"
  proof
    assume "set (public created_alice)
       = set (rest_without ''privateKeyHex'' (IIdentity_entries (toDomain created_alice)))"
    then have "set (map fst (public created_alice))
       = set (map fst (rest_without ''privateKeyHex''
            (IIdentity_entries (toDomain created_alice))))"
      by (simp only: set_map)
    with inside outside show False
      by simp
  qed
  with keys dkeys signer create_stub_alice show ?thesis
    by simp
qed

text \<open>
  What does hold of \<open>public()\<close> for every Identity: the eight fields of the domain record
  other than the private-key hex are in it, with the values \<open>toDomain()\<close> gives them.
\<close>

lemma public_contains_domain_fields:
  "set (rest_without ''privateKeyHex'' (IIdentity_entries (toDomain i))) \<subseteq> set (public i)"
  by (simp add: public_def rest_without_def IIdentity_entries_def IdentityProps_entries_def
        toDomain_def)

section \<open>Properties of create\<close>

lemma required_message_names_fields:
  "sublist ''alias'' ''Required fields: alias, publicKeyHex, privateKeyHex, did''"
  "sublist ''did'' ''Required fields: alias, publicKeyHex, privateKeyHex, did''"
  "sublist ''publicKeyHex'' ''Required fields: alias, publicKeyHex, privateKeyHex, did''"
  "sublist ''privateKeyHex'' ''Required fields: alias, publicKeyHex, privateKeyHex, did''"
proof -
  have "sublist ''alias'' (''Required fields: '' @ ''alias'' @ '', publicKeyHex, privateKeyHex, did'')"
    by (rule sublist_appendI)
  then show "sublist ''alias'' ''Required fields: alias, publicKeyHex, privateKeyHex, did''"
    by simp
  have "sublist ''did'' (''Required fields: alias, publicKeyHex, privateKeyHex, '' @ ''did'' @ [])"
    by (rule sublist_appendI)
  then show "sublist ''did'' ''Required fields: alias, publicKeyHex, privateKeyHex, did''"
    by simp
  have "sublist ''publicKeyHex'' (''Required fields: alias, '' @ ''publicKeyHex'' @ '', privateKeyHex, did'')"
    by (rule sublist_appendI)
  then show "sublist ''publicKeyHex'' ''Required fields: alias, publicKeyHex, privateKeyHex, did''"
    by simp
  have "sublist ''privateKeyHex'' (''Required fields: alias, publicKeyHex, '' @ ''privateKeyHex'' @ '', did'')"
    by (rule sublist_appendI)
  then show "sublist ''privateKeyHex'' ''Required fields: alias, publicKeyHex, privateKeyHex, did''"
    by simp
qed



text \<open>
  C2. For every IdentityConfig in which any one of alias, did, publicKeyHex or
  privateKeyHex is absent or the empty string, \<open>create(config)\<close> returns a failure result
  (never a success and never a thrown exception) whose message names the missing
  requirement, and no Identity object is constructed. The result is the same for every
  behaviour of the libraries: none of them is reached. The message of the returned result
  is the list of the required fields, so it contains the name of each missing one.
\<close>

theorem create_rejects_missing_required:
  assumes "falsy (IdentityConfig.alias config) \<or> falsy (IdentityConfig.did config)
         \<or> falsy (IdentityConfig.publicKeyHex config) \<or> falsy (IdentityConfig.privateKeyHex config)"
  shows "create E config =
           Inr (fail ''Required fields: alias, publicKeyHex, privateKeyHex, did'' None [])
       \<and> isFailure (fail ''Required fields: alias, publicKeyHex, privateKeyHex, did'' None []
                     :: Identity Result)
       \<and> produced (create E config) = None
       \<and> sublist ''alias'' ''Required fields: alias, publicKeyHex, privateKeyHex, did''
       \<and> sublist ''did'' ''Required fields: alias, publicKeyHex, privateKeyHex, did''
       \<and> sublist ''publicKeyHex'' ''Required fields: alias, publicKeyHex, privateKeyHex, did''
       \<and> sublist ''privateKeyHex'' ''Required fields: alias, publicKeyHex, privateKeyHex, did''
       \<and> (\<exists>r m. create E config = Inr r \<and> isFailure r \<and> \<not> isSuccess r
              \<and> errorMessage r = Some m \<and> errorCause r = None
              \<and> m = ''Required fields: alias, publicKeyHex, privateKeyHex, did''
              \<and> (falsy (IdentityConfig.alias config) \<longrightarrow> sublist ''alias'' m)
              \<and> (falsy (IdentityConfig.did config) \<longrightarrow> sublist ''did'' m)
              \<and> (falsy (IdentityConfig.publicKeyHex config) \<longrightarrow> sublist ''publicKeyHex'' m)
              \<and> (falsy (IdentityConfig.privateKeyHex config) \<longrightarrow> sublist ''privateKeyHex'' m))"
proof -
  have "create_try E config =
          Inr (fail ''Required fields: alias, publicKeyHex, privateKeyHex, did'' None [])"
    using assms unfolding create_try_def by auto
  then have returned: "create E config =
          Inr (fail ''Required fields: alias, publicKeyHex, privateKeyHex, did'' None [])"
    by (simp add: create_def)
  have failure: "isFailure (fail ''Required fields: alias, publicKeyHex, privateKeyHex, did'' None []
                     :: Identity Result)"
    by (rule result_fail_simps)
  have observed: "\<exists>r m. create E config = Inr r \<and> isFailure r \<and> \<not> isSuccess r
              \<and> errorMessage r = Some m \<and> errorCause r = None
              \<and> m = ''Required fields: alias, publicKeyHex, privateKeyHex, did''
              \<and> (falsy (IdentityConfig.alias config) \<longrightarrow> sublist ''alias'' m)
              \<and> (falsy (IdentityConfig.did config) \<longrightarrow> sublist ''did'' m)
              \<and> (falsy (IdentityConfig.publicKeyHex config) \<longrightarrow> sublist ''publicKeyHex'' m)
              \<and> (falsy (IdentityConfig.privateKeyHex config) \<longrightarrow> sublist ''privateKeyHex'' m)"
  proof (intro exI conjI)
    show "create E config =
          Inr (fail ''Required fields: alias, publicKeyHex, privateKeyHex, did'' None [])"
      by (rule returned)
    show "isFailure (fail ''Required fields: alias, publicKeyHex, privateKeyHex, did'' None []
                     :: Identity Result)"
      by (rule failure)
    show "\<not> isSuccess (fail ''Required fields: alias, publicKeyHex, privateKeyHex, did'' None []
                     :: Identity Result)"
      using failure by (simp add: isFailure_def)
    show "errorMessage (fail ''Required fields: alias, publicKeyHex, privateKeyHex, did'' None []
                     :: Identity Result)
          = Some ''Required fields: alias, publicKeyHex, privateKeyHex, did''"
      by (rule result_fail_simps)
    show "errorCause (fail ''Required fields: alias, publicKeyHex, privateKeyHex, did'' None []
                     :: Identity Result) = None"
      by (rule result_fail_simps)
  qed (simp_all add: required_message_names_fields)
  have constructed: "produced (create E config) = None"
    by (simp add: returned produced_def fail_def)
  show ?thesis
    by (intro conjI returned failure constructed required_message_names_fields observed)
qed

theorem create_rejects_missing_required_witness:
  "falsy (IdentityConfig.did keys_missing_config)
   \<and> create stub_env keys_missing_config =
       Inr (fail ''Required fields: alias, publicKeyHex, privateKeyHex, did'' None [])
   \<and> isFailure (projr (create stub_env keys_missing_config))
   \<and> errorMessage (projr (create stub_env keys_missing_config)) =
       Some ''Required fields: alias, publicKeyHex, privateKeyHex, did''
   \<and> errorCause (projr (create stub_env keys_missing_config)) = None"
  using create_rejects_missing_required [of keys_missing_config stub_env]
  by (simp add: keys_missing_config_def falsy_def result_fail_simps)



section \<open>Properties of generate\<close>

text \<open>
  C8. \<open>generate\<close> and \<open>create\<close> never throw across their public boundary: for every
  input, any internal exception is caught and converted into a failure result carrying a
  human-readable message and, where the underlying error is available, that error as the
  cause; the operations always return either a success result or such a failure result.
  For a thrown Error instance the returned result is a failure whose message is the
  error's message and whose cause is the error; for any other thrown value it is a failure
  with the message \<open>Unknown error occurred\<close> and no cause.
\<close>

theorem generate_and_create_never_throw:
  "(\<exists>r. create E config = Inr r)
   \<and> (\<exists>r. generate E a = Inr r)
   \<and> (\<forall>e. create_try E config = Inl (ErrorInstance e) \<longrightarrow>
          create E config = Inr (fail (Error_message e) (Some e) [])
        \<and> isFailure (projr (create E config))
        \<and> errorMessage (projr (create E config)) = Some (Error_message e)
        \<and> errorCause (projr (create E config)) = Some e)
   \<and> (\<forall>v. create_try E config = Inl (NonError v) \<longrightarrow>
          create E config = Inr (fail ''Unknown error occurred'' None [])
        \<and> isFailure (projr (create E config))
        \<and> errorMessage (projr (create E config)) = Some ''Unknown error occurred''
        \<and> errorCause (projr (create E config)) = None)
   \<and> (\<forall>e. generate_try E a = Inl (ErrorInstance e) \<longrightarrow>
          generate E a = Inr (fail (Error_message e) (Some e) [])
        \<and> isFailure (projr (generate E a))
        \<and> errorMessage (projr (generate E a)) = Some (Error_message e)
        \<and> errorCause (projr (generate E a)) = Some e)
   \<and> (\<forall>v. generate_try E a = Inl (NonError v) \<longrightarrow>
          generate E a = Inr (fail ''Unknown error occurred'' None [])
        \<and> isFailure (projr (generate E a))
        \<and> errorMessage (projr (generate E a)) = Some ''Unknown error occurred''
        \<and> errorCause (projr (generate E a)) = None)
   \<and> (\<forall>r. create_try E config = Inr r \<longrightarrow> create E config = Inr r)
   \<and> (\<forall>r. generate_try E a = Inr r \<longrightarrow> generate E a = Inr r)"
proof -
  have "\<exists>r. create E config = Inr r"
    by (cases "create_try E config") (simp_all add: create_def)
  moreover have "\<exists>r. generate E a = Inr r"
    by (cases "generate_try E a") (simp_all add: generate_def)
  ultimately show ?thesis
    by (simp add: create_def generate_def result_fail_simps)
qed

theorem generate_and_create_never_throw_witness:
  "create_try throwing_env alice_config = Inl (ErrorInstance (Error ''Invalid hex''))
   \<and> create throwing_env alice_config =
       Inr (fail ''Invalid hex'' (Some (Error ''Invalid hex'')) [])
   \<and> errorMessage (projr (create throwing_env alice_config)) = Some ''Invalid hex''
   \<and> errorCause (projr (create throwing_env alice_config)) = Some (Error ''Invalid hex'')
   \<and> create_try throwing_string_env alice_config = Inl (NonError (JStr ''bad key''))
   \<and> create throwing_string_env alice_config = Inr (fail ''Unknown error occurred'' None [])
   \<and> errorMessage (projr (create throwing_string_env alice_config))
       = Some ''Unknown error occurred''
   \<and> errorCause (projr (create throwing_string_env alice_config)) = None
   \<and> generate_try throwing_env ''alice'' = Inl (ErrorInstance (Error ''Invalid hex''))
   \<and> generate throwing_env ''alice'' =
       Inr (fail ''Invalid hex'' (Some (Error ''Invalid hex'')) [])
   \<and> errorMessage (projr (generate throwing_env ''alice'')) = Some ''Invalid hex''
   \<and> errorCause (projr (generate throwing_env ''alice'')) = Some (Error ''Invalid hex'')
   \<and> generate_try throwing_string_env ''alice'' = Inl (NonError (JStr ''bad key''))
   \<and> generate throwing_string_env ''alice'' = Inr (fail ''Unknown error occurred'' None [])
   \<and> errorMessage (projr (generate throwing_string_env ''alice''))
       = Some ''Unknown error occurred''
   \<and> errorCause (projr (generate throwing_string_env ''alice'')) = None"
proof -
  have c1: "create_try throwing_env alice_config = Inl (ErrorInstance (Error ''Invalid hex''))"
    by (simp add: create_try_def falsy_def alice_config_def throwing_env_def stub_env_def)
  have c2: "create_try throwing_string_env alice_config = Inl (NonError (JStr ''bad key''))"
    by (simp add: create_try_def falsy_def alice_config_def throwing_string_env_def
          stub_env_def)
  have g1: "generate_try throwing_env ''alice'' = Inl (ErrorInstance (Error ''Invalid hex''))"
    by (simp add: generate_try_def throwing_env_def stub_env_def)
  have g2: "generate_try throwing_string_env ''alice'' = Inl (NonError (JStr ''bad key''))"
    by (simp add: generate_try_def throwing_string_env_def stub_env_def)
  show ?thesis
    using c1 c2 g1 g2
      generate_and_create_never_throw [of throwing_env alice_config "''alice''"]
      generate_and_create_never_throw [of throwing_string_env alice_config "''alice''"]
    by (simp add: result_fail_simps)
qed

text \<open>
  C9. For every successful \<open>generate(alias)\<close>, the self-signed credential stored in the
  resulting Identity is issued with the newly derived DID string as issuer, and its
  subject's holder id and issuedBy id both equal that same DID string, with the given alias
  as both names. The stored DID string is the one the identity's DID unit derived, that
  unit was built from the stored public-key hex, which is the signer's; and the stored
  credential is what the identity's credential unit returned for that subject, the type
  \<open>IdentityCredential\<close> and that issuer.
\<close>

theorem generate_issues_self_signed_credential:
  assumes "generate E a = Inr (Success i)"
  shows "Credential_issueCredential (credentialUnit (props i))
           \<lparr>holder = \<lparr>Holder.id' = IdentityProps.did (props i), Holder.name = a\<rparr>,
            issuedBy = \<lparr>Holder.id' = IdentityProps.did (props i), Holder.name = a\<rparr>\<rparr>
           ''IdentityCredential'' (IdentityProps.did (props i))
         = Inr (Success (IdentityProps.credential (props i)))
       \<and> DID_generateKey (didUnit (props i)) = Inr (Some (IdentityProps.did (props i)))
       \<and> DID_create E
           \<lparr>DIDConfig.publicKeyHex = IdentityProps.publicKeyHex (props i),
            DIDConfig.keyType = ''Ed25519'',
            DIDConfig.metadata = \<lparr>DIDMetadata.alias = a\<rparr>\<rparr> = Inr (Some (didUnit (props i)))
       \<and> Signer_getPublicKeyHex (signerUnit (props i))
           = Inr (Some (IdentityProps.publicKeyHex (props i)))
       \<and> IdentityProps.did (props i) \<noteq> []
       \<and> IdentityProps.alias (props i) = a"
  using generate_try_SuccessD [OF generate_Success_try [OF assms]]
    generate_try_Success_derivation [OF generate_Success_try [OF assms]]
  by (simp add: generate_subject_def)

theorem generate_issues_self_signed_credential_witness:
  "generate stub_env ''alice'' = Inr (Success (generated ''alice''))
   \<and> IdentityProps.did (props (generated ''alice'')) = ''did:key:zab''
   \<and> DID_generateKey (didUnit (props (generated ''alice''))) = Inr (Some ''did:key:zab'')
   \<and> Credential_issueCredential taught_credential
           \<lparr>holder = \<lparr>Holder.id' = ''did:key:zab'', Holder.name = ''alice''\<rparr>,
            issuedBy = \<lparr>Holder.id' = ''did:key:zab'', Holder.name = ''alice''\<rparr>\<rparr>
           ''IdentityCredential'' ''did:key:zab''
       = Inr (Success (IdentityProps.credential (props (generated ''alice''))))
   \<and> IdentityProps.credential (props (generated ''alice'')) =
       [(''type'', JStr ''IdentityCredential''), (''issuer'', JStr ''did:key:zab''),
        (''holder'', JStr ''did:key:zab'')]"
  using generate_stub [of "''alice''"]
    generate_issues_self_signed_credential [OF generate_stub [of "''alice''"]]
  by (simp add: generated_def generate_props_def stub_vc_def generate_subject_def
        stub_unit_simps)

section \<open>The round trip through the domain record\<close>




section \<open>Properties of the delegated operations\<close>

lemma registry_created_alice: "capabilities' created_alice = []"
  by (simp add: created_alice_def new_Identity_def)

lemma registry_keyless_alice: "capabilities' keyless_alice = []"
  by (simp add: keyless_alice_def new_Identity_def)

lemma props_keyless_alice:
  "IdentityProps.privateKeyHex (props keyless_alice) = None"
  "signerUnit (props keyless_alice) = stub_signer ''ab''"
  "UnitSchema.id' (dna (props keyless_alice)) = ''identity''"
  by (simp_all add: keyless_alice_def created_alice_def create_props_def)

text \<open>
  C3. For every Identity and every call to \<open>sign(data)\<close>: if the capability registry
  contains an entry under the name \<open>signer.sign\<close>, that learned capability is invoked with
  the call's arguments and its result is returned (the bound signer is not called: the
  result is the same whatever signer the props hold); otherwise, if the identity's record
  holds a private-key hex (present and not empty), the bound signer component's \<open>sign\<close> is
  invoked directly with the same data.
\<close>

theorem sign_delegation:
  "(map_of (capabilities' i) ''signer.sign'' = Some impl \<longrightarrow>
      can i ''signer.sign''
    \<and> sign i d = impl [JStr d]
    \<and> sign (i\<lparr>props := (props i)\<lparr>signerUnit := other\<rparr>\<rparr>) d = impl [JStr d])
   \<and> (map_of (capabilities' i) ''signer.sign'' = None
      \<and> IdentityProps.privateKeyHex (props i) = Some hex \<and> hex \<noteq> [] \<longrightarrow>
      \<not> can i ''signer.sign''
    \<and> sign i d =
        (case Signer_sign (signerUnit (props i)) d of
           Inl e \<Rightarrow> Inl e | Inr s \<Rightarrow> Inr (JStr s)))"
  by (simp add: sign_def can_def execute_def falsy_def js_bind_def)

theorem sign_delegation_witness:
  "map_of (capabilities' overridden_alice) ''signer.sign''
     = Some (\<lambda>args. Inr (JStr ''replacement''))
   \<and> sign overridden_alice ''hello'' = Inr (JStr ''replacement'')
   \<and> map_of (capabilities' created_alice) ''signer.sign'' = None
   \<and> IdentityProps.privateKeyHex (props created_alice) = Some ''cd''
   \<and> sign created_alice ''hello'' = Inr (JStr ''sig:hello'')"
proof -
  have learned: "map_of (capabilities' overridden_alice) ''signer.sign''
     = Some (\<lambda>args. Inr (JStr ''replacement''))"
    by (simp add: overridden_alice_def learn_def registry_created_alice)
  have bound: "map_of (capabilities' created_alice) ''signer.sign'' = None"
    by (simp add: registry_created_alice)
  have hex: "IdentityProps.privateKeyHex (props created_alice) = Some ''cd''"
    by (simp add: created_alice_def create_props_def alice_config_def)
  have signer: "signerUnit (props created_alice) = stub_signer ''ab''"
    by (simp add: created_alice_def create_props_def)
  show ?thesis
    using learned bound hex
      sign_delegation [of overridden_alice "\<lambda>args. Inr (JStr ''replacement'')" "''hello''"
        "stub_signer ''ab''" "''cd''"]
      sign_delegation [of created_alice "\<lambda>args. Inr (JStr ''replacement'')" "''hello''"
        "stub_signer ''ab''" "''cd''"]
    by (simp add: signer stub_unit_simps)
qed

text \<open>
  C4 as stated fails for \<open>verify\<close>: it has no capability-missing branch. An identity with
  no private-key material and no learned override still verifies through its bound signer.
\<close>

theorem verify_without_private_key_counterexample:
  "\<not> can keyless_alice ''signer.verify''
   \<and> IdentityProps.privateKeyHex (props keyless_alice) = None
   \<and> verify keyless_alice ''hello'' ''sig:hello'' = Inr (JBool True)"
  by (simp add: verify_def can_def registry_keyless_alice props_keyless_alice stub_unit_simps)

text \<open>
  C4, amended. For every Identity with no learned override for the operation: \<open>sign\<close>
  raises the capability-missing error directly when the record holds no private-key hex
  (absent or empty); \<open>verify\<close> has no capability-missing condition of its own, it calls
  the bound signer's \<open>verify\<close> whatever the private-key material and raises exactly when
  that call raises. Neither wraps an error in a failure result.
\<close>

theorem sign_and_verify_raise_directly:
  "(\<not> can i ''signer.sign'' \<and> falsy (IdentityProps.privateKeyHex (props i)) \<longrightarrow>
      sign i d = Inl (ErrorInstance (Error
        (''['' @ UnitSchema.id' (dna (props i)) @ ''] Cannot sign - missing ''
          @ [CHR 0x27] @ ''signer.sign'' @ [CHR 0x27]
          @ '' capability. Learn from: Signer.create().teach()''))))
   \<and> (\<not> can i ''signer.verify'' \<longrightarrow>
      verify i d sg =
        (case Signer_verify (signerUnit (props i)) d sg of
           Inl e \<Rightarrow> Inl e | Inr b \<Rightarrow> Inr (JBool b)))"
  by (simp add: sign_def verify_def js_bind_def)

theorem sign_and_verify_raise_directly_witness:
  "\<not> can keyless_alice ''signer.sign''
   \<and> falsy (IdentityProps.privateKeyHex (props keyless_alice))
   \<and> sign keyless_alice ''hello'' = Inl (ErrorInstance (Error
        (''[identity] Cannot sign - missing '' @ [CHR 0x27] @ ''signer.sign'' @ [CHR 0x27]
          @ '' capability. Learn from: Signer.create().teach()'')))
   \<and> \<not> can keyless_alice ''signer.verify''
   \<and> verify keyless_alice ''hello'' ''forged'' = Inr (JBool False)"
proof -
  have no_sign: "\<not> can keyless_alice ''signer.sign''"
    and no_verify: "\<not> can keyless_alice ''signer.verify''"
    by (simp_all add: can_def registry_keyless_alice)
  have no_key: "falsy (IdentityProps.privateKeyHex (props keyless_alice))"
    by (simp add: props_keyless_alice falsy_def)
  show ?thesis
    using no_sign no_verify no_key
      sign_and_verify_raise_directly [of keyless_alice "''hello''" "''forged''"]
    by (simp add: props_keyless_alice stub_unit_simps)
qed

end
